theory Spec2Isabelle
  imports Main
begin

section \<open>Python values used by \<^verbatim>\<open>main.py\<close>\<close>

text \<open>
  A Python \<^verbatim>\<open>str\<close> is modelled as a \<^typ>\<open>string\<close>: one \<^typ>\<open>char\<close> stands for one
  character of the text (code points below 256), so \<^const>\<open>length\<close> is Python's
  \<^verbatim>\<open>len\<close>. A Python \<^verbatim>\<open>dict\<close> with string keys is an association list in insertion
  order, looked up with \<^const>\<open>map_of\<close>; \<^verbatim>\<open>d.get(k)\<close> is \<open>map_of d k\<close>, with \<open>None\<close> for
  Python's \<^verbatim>\<open>None\<close>.
\<close>

type_synonym 'v dict = "(string \<times> 'v) list"

text \<open>
  Exceptions are values. The kind records the class the \<^verbatim>\<open>except\<close> clauses look at
  (\<open>RequestException\<close> stands for \<^verbatim>\<open>requests.RequestException\<close> and its subclasses),
  the string is \<^verbatim>\<open>str(e)\<close>.
\<close>

datatype exn_kind =
  RequestException | IndexError | KeyError | ValueError | AttributeError | OtherException

datatype exn = Exn (kind: exn_kind) (str_of: string)

text \<open>\<^verbatim>\<open>str.isspace\<close> on the code points below 256: the characters \<^verbatim>\<open>rstrip()\<close> removes.\<close>

definition py_isspace :: "char \<Rightarrow> bool" where
  "py_isspace c \<longleftrightarrow>
     c \<in> {CHR 0x09, CHR 0x0A, CHR 0x0B, CHR 0x0C, CHR 0x0D,
          CHR 0x1C, CHR 0x1D, CHR 0x1E, CHR 0x1F, CHR 0x20, CHR 0x85, CHR 0xA0}"

text \<open>\<^verbatim>\<open>s.rstrip()\<close>: the string without its trailing whitespace.\<close>

definition py_rstrip :: "string \<Rightarrow> string" where
  "py_rstrip s = rev (dropWhile py_isspace (rev s))"

text \<open>\<^verbatim>\<open>s.rfind(c)\<close> for a one-character \<open>c\<close>: the highest index holding \<open>c\<close>, or \<open>-1\<close>.\<close>

definition py_rfind :: "string \<Rightarrow> char \<Rightarrow> int" where
  "py_rfind s c =
     (if c \<in> set s
      then int (length s) - 1 - int (length (takeWhile (\<lambda>x. x \<noteq> c) (rev s)))
      else - 1)"

text \<open>
  \<^verbatim>\<open>random.choice(seq)\<close>: the draw \<open>r\<close> of the generator selects index
  \<open>r mod len(seq)\<close>, so every element can be chosen; an empty sequence raises
  \<^verbatim>\<open>IndexError\<close> (with the text current Python versions give it).
\<close>

definition choice :: "nat \<Rightarrow> 'a list \<Rightarrow> exn + 'a" where
  "choice r seq =
     (if seq = [] then Inl (Exn IndexError ''Cannot choose from an empty sequence'')
      else Inr (seq ! (r mod length seq)))"

text \<open>An f-string field \<^verbatim>\<open>{v}\<close> for a value that is a string or \<^verbatim>\<open>None\<close>.\<close>

definition py_format :: "string option \<Rightarrow> string" where
  "py_format v = (case v of None \<Rightarrow> ''None'' | Some s \<Rightarrow> s)"

section \<open>The book database\<close>

text \<open>
  A chapter is a JSON object with string members (\<^verbatim>\<open>"text"\<close>, \<^verbatim>\<open>"link"\<close>). A book is a
  JSON object: \<open>members\<close> holds its string-valued members under the keys the file gives
  them, \<open>chapters\<close> is the member \<^verbatim>\<open>"chapters"\<close> (\<open>None\<close> when the book has no such key).
\<close>

type_synonym chapter_dict = "string dict"

record book =
  members :: "string dict"
  chapters :: "chapter_dict dict option"

text \<open>The dict \<^verbatim>\<open>get_random_chapter\<close> returns.\<close>

record excerpt =
  title :: "string option"
  author :: "string option"
  chapter_name :: string
  "text" :: string
  link :: "string option"

section \<open>\<^verbatim>\<open>get_random_chapter\<close>\<close>

text \<open>
  Lines 57 to 64: the local \<^verbatim>\<open>excerpt\<close> as it stands before the result is built.
  \<^verbatim>\<open>last_period\<close> and the lengths are Python integers, so the comparison is on \<^typ>\<open>int\<close>.
\<close>

definition sentence_excerpt :: "string \<Rightarrow> string" where
  "sentence_excerpt full_text =
     (let excerpt = take 2000 full_text;
          last_period = py_rfind excerpt (CHR ''.'')
      in if last_period \<noteq> - 1 \<and> last_period > int (length excerpt) - 200
         then take (nat (last_period + 1)) excerpt
         else py_rstrip excerpt)"

text \<open>Line 70: the \<^verbatim>\<open>"text"\<close> entry of the result.\<close>

definition excerpt_text :: "string \<Rightarrow> string" where
  "excerpt_text full_text =
     (let excerpt = sentence_excerpt full_text
      in excerpt @ (if length full_text > length excerpt then ''...'' else ''''))"

text \<open>
  Lines 48 to 53: the two random choices. \<open>rnd\<close> holds the two draws of the generator.
  \<^verbatim>\<open>chapters[chapter_key]\<close> cannot miss, since the key comes from the dict itself; the
  \<^verbatim>\<open>KeyError\<close> branch is written out all the same.
\<close>

definition pick_chapter :: "nat \<times> nat \<Rightarrow> book list \<Rightarrow> exn + (book \<times> string \<times> chapter_dict)" where
  "pick_chapter rnd database =
     (case choice (fst rnd) database of
        Inl e \<Rightarrow> Inl e
      | Inr book \<Rightarrow>
          (let chaps = (case chapters book of None \<Rightarrow> [] | Some cs \<Rightarrow> cs)
           in case choice (snd rnd) (map fst chaps) of
                Inl e \<Rightarrow> Inl e
              | Inr chapter_key \<Rightarrow>
                  (case map_of chaps chapter_key of
                     None \<Rightarrow> Inl (Exn KeyError ([CHR 0x27] @ chapter_key @ [CHR 0x27]))
                   | Some chapter \<Rightarrow> Inr (book, chapter_key, chapter))))"

text \<open>Line 54: \<^verbatim>\<open>chapter.get("text", "")\<close>.\<close>

definition chapter_text :: "chapter_dict \<Rightarrow> string" where
  "chapter_text chapter = (case map_of chapter ''text'' of None \<Rightarrow> '''' | Some t \<Rightarrow> t)"

definition get_random_chapter :: "nat \<times> nat \<Rightarrow> book list \<Rightarrow> exn + excerpt" where
  "get_random_chapter rnd database =
     (case pick_chapter rnd database of
        Inl e \<Rightarrow> Inl e
      | Inr (book, chapter_key, chapter) \<Rightarrow>
          (let full_text = chapter_text chapter
           in Inr \<lparr> title = map_of (members book) ''main_title'',
                    author = map_of (members book) ''author'',
                    chapter_name = chapter_key,
                    text = excerpt_text full_text,
                    link = map_of chapter ''link'' \<rparr>))"

text \<open>The \<^verbatim>\<open>"text"\<close> entry of the returned dict, or the exception raised.\<close>

definition selected_text :: "nat \<times> nat \<Rightarrow> book list \<Rightarrow> exn + string" where
  "selected_text rnd database = map_sum id text (get_random_chapter rnd database)"

section \<open>\<^verbatim>\<open>post_to_facebook\<close>\<close>

text \<open>
  What the function does to the outside is kept as a list of events, in order: each
  \<^verbatim>\<open>requests.post\<close> (with its URL and JSON payload; the timeout is always 10), each
  \<^verbatim>\<open>time.sleep\<close>, and each call of the logger.

  The parameter \<^verbatim>\<open>logger\<close> has the default \<^verbatim>\<open>None\<close>, so it is an option: \<open>Some Logger\<close>
  is a logger object as \<^verbatim>\<open>setup_logging\<close> makes it, and on \<open>None\<close> the attribute access
  \<^verbatim>\<open>logger.info\<close> or \<^verbatim>\<open>logger.error\<close> raises \<^verbatim>\<open>AttributeError\<close>.
\<close>

datatype logger = Logger

definition none_has_no_attribute :: "string \<Rightarrow> exn" where
  "none_has_no_attribute name =
     Exn AttributeError
       ([CHR 0x27] @ ''NoneType'' @ [CHR 0x27] @ '' object has no attribute ''
          @ [CHR 0x27] @ name @ [CHR 0x27])"

datatype log_msg =
  PostSuccessful "string option"
| AttemptFailed int exn
| MaxRetriesReached
| FailedToPublish exn

datatype event =
  Post string "string dict"
| Sleep int
| Info log_msg
| Error log_msg

text \<open>
  A response of the remote API: \<open>status_error\<close> is the text of the \<^verbatim>\<open>HTTPError\<close> that
  \<^verbatim>\<open>raise_for_status()\<close> raises, if the status is an error status; \<open>json\<close> is what
  \<^verbatim>\<open>response.json()\<close> returns or raises. The transport gives, for the \<open>k\<close>-th call of
  \<^verbatim>\<open>requests.post\<close> in a run, either the exception raised or the response.
\<close>

record response =
  status_error :: "string option"
  json :: "exn + string dict"

type_synonym transport = "int \<Rightarrow> string \<Rightarrow> string dict \<Rightarrow> exn + response"

text \<open>Lines 81 to 83.\<close>

definition build_payload :: "string \<Rightarrow> string \<Rightarrow> string option \<Rightarrow> string dict" where
  "build_payload access_token message lnk =
     (let payload = [(''message'', message), (''published'', ''true''),
                     (''access_token'', access_token)]
      in case lnk of
           None \<Rightarrow> payload
         | Some l \<Rightarrow> if l \<noteq> '''' then payload @ [(''link'', l)] else payload)"

text \<open>Lines 87 to 89: the three calls of the \<^verbatim>\<open>try\<close> body that can raise.\<close>

definition deliver :: "transport \<Rightarrow> int \<Rightarrow> string \<Rightarrow> string dict \<Rightarrow> exn + string dict" where
  "deliver t attempt url payload =
     (case t attempt url payload of
        Inl e \<Rightarrow> Inl e
      | Inr resp \<Rightarrow>
          (case status_error resp of
             Some msg \<Rightarrow> Inl (Exn RequestException msg)
           | None \<Rightarrow> json resp))"

text \<open>
  Lines 85 to 99, over the attempts still to make. Only a \<open>RequestException\<close> is caught.
  Without a logger, line 90 raises inside the \<^verbatim>\<open>try\<close> (not a \<open>RequestException\<close>, so
  it is not caught) and line 94 raises inside the \<^verbatim>\<open>except\<close> clause; either way the
  \<^verbatim>\<open>AttributeError\<close> leaves the function. \<^verbatim>\<open>time.sleep\<close> raises \<^verbatim>\<open>ValueError\<close> on a
  negative length; a loop that runs out without returning makes the function return
  \<^verbatim>\<open>None\<close>.
\<close>

fun retry_loop ::
  "transport \<Rightarrow> string \<Rightarrow> string dict \<Rightarrow> int \<Rightarrow> int \<Rightarrow> logger option \<Rightarrow> int list
     \<Rightarrow> (exn + string dict option) \<times> event list" where
  "retry_loop t url payload max_retries backoff lg [] = (Inr None, [])"
| "retry_loop t url payload max_retries backoff lg (attempt # rest) =
     (case deliver t attempt url payload of
        Inr result \<Rightarrow>
          (case lg of
             None \<Rightarrow> (Inl (none_has_no_attribute ''info''), [Post url payload])
           | Some l \<Rightarrow>
               (Inr (Some result),
                [Post url payload, Info (PostSuccessful (map_of result ''id''))]))
      | Inl e \<Rightarrow>
          if kind e = RequestException then
            (case lg of
               None \<Rightarrow> (Inl (none_has_no_attribute ''error''), [Post url payload])
             | Some l \<Rightarrow>
                 if attempt < max_retries then
                   if backoff * attempt < 0 then
                     (Inl (Exn ValueError ''sleep length must be non-negative''),
                      [Post url payload, Error (AttemptFailed attempt e)])
                   else
                     (let (r, evs) = retry_loop t url payload max_retries backoff lg rest
                      in (r, [Post url payload, Error (AttemptFailed attempt e),
                              Sleep (backoff * attempt)] @ evs))
                 else
                   (Inl e, [Post url payload, Error (AttemptFailed attempt e),
                            Error MaxRetriesReached]))
          else (Inl e, [Post url payload]))"

text \<open>Line 79.\<close>

definition feed_url :: "string \<Rightarrow> string" where
  "feed_url page_id = ''https://graph.facebook.com/v22.0/'' @ page_id @ ''/feed''"

text \<open>
  The whole function: \<^verbatim>\<open>range(1, max_retries + 1)\<close> is the list \<open>[1..max_retries]\<close>. The
  result is the exception raised, or the value returned: the parsed response body, or
  \<^verbatim>\<open>None\<close>.
\<close>

definition post_to_facebook ::
  "transport \<Rightarrow> string \<Rightarrow> string \<Rightarrow> string \<Rightarrow> string option \<Rightarrow> int \<Rightarrow> int
     \<Rightarrow> logger option \<Rightarrow> (exn + string dict option) \<times> event list" where
  "post_to_facebook t page_id access_token message lnk max_retries backoff lg =
     (let url = feed_url page_id;
          payload = build_payload access_token message lnk
      in retry_loop t url payload max_retries backoff lg [1..max_retries])"

text \<open>Reading the events of a run.\<close>

fun is_post :: "event \<Rightarrow> bool" where
  "is_post (Post url payload) = True"
| "is_post ev = False"

definition attempts_made :: "event list \<Rightarrow> nat" where
  "attempts_made evs = length (filter is_post evs)"

fun sleeps :: "event list \<Rightarrow> int list" where
  "sleeps [] = []"
| "sleeps (Sleep d # evs) = d # sleeps evs"
| "sleeps (ev # evs) = sleeps evs"

fun posted_payloads :: "event list \<Rightarrow> string dict list" where
  "posted_payloads [] = []"
| "posted_payloads (Post url payload # evs) = payload # posted_payloads evs"
| "posted_payloads (ev # evs) = posted_payloads evs"

text \<open>The requests and the waits of a run, in order, without the log entries.\<close>

fun timeline :: "event list \<Rightarrow> event list" where
  "timeline [] = []"
| "timeline (Info m # evs) = timeline evs"
| "timeline (Error m # evs) = timeline evs"
| "timeline (ev # evs) = ev # timeline evs"

text \<open>An attempt fails when its \<^verbatim>\<open>try\<close> body raises what the \<^verbatim>\<open>except\<close> clause catches.\<close>

definition attempt_fails :: "transport \<Rightarrow> int \<Rightarrow> string \<Rightarrow> string dict \<Rightarrow> bool" where
  "attempt_fails t attempt url payload =
     (case deliver t attempt url payload of
        Inl e \<Rightarrow> kind e = RequestException
      | Inr result \<Rightarrow> False)"

section \<open>\<^verbatim>\<open>create_post\<close>\<close>

text \<open>Lines 115 to 119: the message built from the selected item.\<close>

definition post_message :: "excerpt \<Rightarrow> string" where
  "post_message item =
     py_format (title item) @ '', '' @ py_format (author item) @ [CHR 0x0A]
       @ chapter_name item @ [CHR 0x0A, CHR 0x0A]
       @ text item"

text \<open>
  The handler either returns the dict \<^verbatim>\<open>{"post_id": result.get("id")}\<close> or raises
  \<^verbatim>\<open>HTTPException(status_code, detail)\<close>. It calls \<^verbatim>\<open>post_to_facebook\<close> with the
  default \<^verbatim>\<open>max_retries=3\<close> and \<^verbatim>\<open>backoff=5\<close> and with the module's logger
  (\<^verbatim>\<open>logger=logger\<close>, line 120); \<^verbatim>\<open>except Exception\<close> catches every exception of the
  model, also the \<^verbatim>\<open>AttributeError\<close> of \<^verbatim>\<open>None.get\<close>.
\<close>

datatype outcome = Return "string option" | HTTPException nat string

definition create_post ::
  "string \<Rightarrow> string \<Rightarrow> book list \<Rightarrow> nat \<times> nat \<Rightarrow> transport \<Rightarrow> outcome \<times> event list" where
  "create_post page_id access_token database rnd t =
     (case get_random_chapter rnd database of
        Inl e \<Rightarrow> (HTTPException 500 (str_of e), [Error (FailedToPublish e)])
      | Inr item \<Rightarrow>
          (case post_to_facebook t page_id access_token (post_message item) (link item) 3 5
                  (Some Logger) of
             (Inl e, evs) \<Rightarrow> (HTTPException 500 (str_of e), evs @ [Error (FailedToPublish e)])
           | (Inr None, evs) \<Rightarrow>
               (let e = none_has_no_attribute ''get''
                in (HTTPException 500 (str_of e), evs @ [Error (FailedToPublish e)]))
           | (Inr (Some result), evs) \<Rightarrow> (Return (map_of result ''id''), evs)))"

text \<open>
  What the web framework sends for each outcome of the handler: a raised
  \<^verbatim>\<open>HTTPException\<close> becomes its status with the body \<^verbatim>\<open>{"detail": detail}\<close>; a returned
  dict is checked against \<^verbatim>\<open>PostResponse\<close> (\<^verbatim>\<open>post_id: str\<close>) and sent with status 200,
  and a \<^verbatim>\<open>post_id\<close> of \<^verbatim>\<open>None\<close> fails that check, which is a server error.
\<close>

datatype http_body = PostId string | Detail string | InternalServerError

fun respond :: "outcome \<Rightarrow> nat \<times> http_body" where
  "respond (HTTPException status_code detail) = (status_code, Detail detail)"
| "respond (Return (Some post_id)) = (200, PostId post_id)"
| "respond (Return None) = (500, InternalServerError)"

text \<open>The first line of a message: what stands before its first line feed.\<close>

definition first_line :: "string \<Rightarrow> string" where
  "first_line s = takeWhile (\<lambda>c. c \<noteq> CHR 0x0A) s"

definition posted_messages :: "event list \<Rightarrow> string option list" where
  "posted_messages evs = map (\<lambda>payload. map_of payload ''message'') (posted_payloads evs)"

text \<open>The first line of each message posted in a run.\<close>

definition posted_first_lines :: "event list \<Rightarrow> string option list" where
  "posted_first_lines evs = map (map_option first_line) (posted_messages evs)"

section \<open>Inputs used as examples\<close>

definition example_book :: "string \<Rightarrow> book" where
  "example_book full_text =
     \<lparr> members = [(''main_title'', ''Walden''), (''author'', ''Thoreau'')],
       chapters = Some [(''Economy'', [(''text'', full_text)])] \<rparr>"

text \<open>A book that stores its title under the key \<^verbatim>\<open>"title"\<close>.\<close>

definition titled_book :: book where
  "titled_book =
     \<lparr> members = [(''title'', ''Walden''), (''author'', ''Thoreau'')],
       chapters = Some [(''Economy'', [(''text'', ''Simplify.'')])] \<rparr>"

text \<open>
  Four transports: one that refuses every request, one that accepts every request and
  answers with a body of two entries, one that refuses twice before it accepts, and one
  that accepts every request and answers with a body that has no \<^verbatim>\<open>"id"\<close>.
\<close>

definition refusing :: transport where
  "refusing k url payload = Inl (Exn RequestException ''connection refused'')"

definition accepting :: transport where
  "accepting k url payload =
     Inr \<lparr> status_error = None,
           json = Inr [(''id'', ''123_456''), (''post_supports_client_mutation_id'', ''true'')] \<rparr>"

definition flaky :: transport where
  "flaky k url payload = (if k < 3 then refusing k url payload else accepting k url payload)"

definition idless :: transport where
  "idless k url payload =
     Inr \<lparr> status_error = None, json = Inr [(''success'', ''true'')] \<rparr>"

definition boundary_text :: string where
  "boundary_text = CHR ''.'' # replicate 199 (CHR ''a'')"

section \<open>Properties of the selector\<close>

subsection \<open>The string operations\<close>

lemma py_rfind_absent: "c \<notin> set s \<Longrightarrow> py_rfind s c = - 1"
  by (simp add: py_rfind_def)

lemma py_rfind_last:
  assumes "p < length s" and "s ! p = c"
    and "\<forall>j. p < j \<and> j < length s \<longrightarrow> s ! j \<noteq> c"
  shows "py_rfind s c = int p"
proof -
  have mem: "c \<in> set s" using assms(1,2) by (metis nth_mem)
  have split: "s = take p s @ c # drop (Suc p) s"
    using assms(1,2) by (metis id_take_nth_drop)
  have tail: "\<forall>x \<in> set (drop (Suc p) s). x \<noteq> c"
  proof
    fix x assume "x \<in> set (drop (Suc p) s)"
    then obtain i where i: "i < length (drop (Suc p) s)" "drop (Suc p) s ! i = x"
      by (metis in_set_conv_nth)
    then have "s ! (Suc p + i) = x" by simp
    moreover have "p < Suc p + i \<and> Suc p + i < length s" using i(1) by simp
    ultimately show "x \<noteq> c" using assms(3) by blast
  qed
  have "rev s = rev (drop (Suc p) s) @ c # rev (take p s)"
    by (subst split) simp
  then have "takeWhile (\<lambda>x. x \<noteq> c) (rev s) = rev (drop (Suc p) s)"
    using tail by (simp add: takeWhile_tail)
  then have "length (takeWhile (\<lambda>x. x \<noteq> c) (rev s)) = length s - Suc p" by simp
  then show ?thesis using mem assms(1) by (simp add: py_rfind_def)
qed

lemma py_rfind_present:
  assumes "c \<in> set s"
  shows "\<exists>p. p < length s \<and> s ! p = c \<and> (\<forall>j. p < j \<and> j < length s \<longrightarrow> s ! j \<noteq> c)
           \<and> py_rfind s c = int p"
proof -
  let ?P = "\<lambda>i. i < length s \<and> s ! i = c"
  from assms obtain i where "?P i" by (metis in_set_conv_nth)
  then have ex: "\<exists>i. ?P i" ..
  have bound: "\<forall>i. ?P i \<longrightarrow> i \<le> length s" by simp
  define p where "p = (GREATEST i. ?P i)"
  have Pp: "?P p" unfolding p_def using GreatestI_ex_nat[OF ex, of "length s"] bound by blast
  have max: "\<And>j. ?P j \<Longrightarrow> j \<le> p"
    unfolding p_def using Greatest_le_nat[of ?P _ "length s"] bound by blast
  have last: "\<forall>j. p < j \<and> j < length s \<longrightarrow> s ! j \<noteq> c"
  proof (intro allI impI notI)
    fix j assume "p < j \<and> j < length s" and "s ! j = c"
    then have "j \<le> p" using max[of j] by simp
    then show False using \<open>p < j \<and> j < length s\<close> by simp
  qed
  show ?thesis using Pp last py_rfind_last[of p s c] by blast
qed

lemma length_py_rstrip: "length (py_rstrip s) \<le> length s"
  by (simp add: py_rstrip_def length_dropWhile_le order_trans[OF length_dropWhile_le])

lemma length_sentence_excerpt: "length (sentence_excerpt full_text) \<le> 2000"
proof -
  have "length (py_rstrip (take 2000 full_text)) \<le> 2000"
    using length_py_rstrip[of "take 2000 full_text"] by simp
  moreover have "length (take n (take 2000 full_text)) \<le> 2000" for n
    by simp
  ultimately show ?thesis unfolding sentence_excerpt_def Let_def
    by (simp only: split: if_split) simp
qed

lemma length_excerpt_text: "length (excerpt_text full_text) \<le> 2003"
  using length_sentence_excerpt[of full_text] by (simp add: excerpt_text_def Let_def)

lemma excerpt_text_empty: "excerpt_text '''' = ''''"
  by (simp add: excerpt_text_def sentence_excerpt_def py_rfind_def py_rstrip_def)

lemma nth_in_set_drop:
  assumes "n \<le> p" and "p < length s"
  shows "s ! p \<in> set (drop n s)"
proof -
  have "drop n s ! (p - n) = s ! p" using assms by simp
  moreover have "p - n < length (drop n s)" using assms by (simp add: diff_less_mono)
  ultimately show ?thesis by (metis nth_mem)
qed

lemma py_rfind_last_drop:
  assumes "p < length s" and "s ! p = c" and "c \<notin> set (drop (Suc p) s)"
  shows "py_rfind s c = int p"
proof (rule py_rfind_last[OF assms(1,2)], intro allI impI)
  fix j assume j: "p < j \<and> j < length s"
  then have "s ! j \<in> set (drop (Suc p) s)" by (intro nth_in_set_drop) simp_all
  then show "s ! j \<noteq> c" using assms(3) by metis
qed

lemma sentence_excerpt_at_period:
  assumes "p < length (take 2000 full_text)" and "take 2000 full_text ! p = CHR ''.''"
    and "CHR ''.'' \<notin> set (drop (Suc p) (take 2000 full_text))"
  shows "sentence_excerpt full_text =
           (if length (take 2000 full_text) < p + 200 then take (Suc p) (take 2000 full_text)
            else py_rstrip (take 2000 full_text))"
proof -
  have "py_rfind (take 2000 full_text) (CHR ''.'') = int p"
    using assms by (rule py_rfind_last_drop)
  then show ?thesis
    unfolding sentence_excerpt_def Let_def by (simp add: nat_add_distrib)
qed

lemma sentence_excerpt_no_period:
  assumes "CHR ''.'' \<notin> set (drop (length (take 2000 full_text) - 199) (take 2000 full_text))"
  shows "sentence_excerpt full_text = py_rstrip (take 2000 full_text)"
proof (cases "CHR ''.'' \<in> set (take 2000 full_text)")
  case False
  then show ?thesis
    unfolding sentence_excerpt_def Let_def by (simp add: py_rfind_absent)
next
  case True
  let ?c = "take 2000 full_text"
  from py_rfind_present[OF True] obtain p where p: "p < length ?c" "?c ! p = CHR ''.''"
    "py_rfind ?c (CHR ''.'') = int p" by blast
  have "p < length ?c - 199"
  proof (rule ccontr)
    assume "\<not> p < length ?c - 199"
    then have "?c ! p \<in> set (drop (length ?c - 199) ?c)"
      using p(1) by (intro nth_in_set_drop) simp_all
    then show False using assms p(2) by simp
  qed
  then have "\<not> int (length ?c) - 200 < int p" by linarith
  then show ?thesis
    unfolding sentence_excerpt_def Let_def using p(3) by simp
qed

lemma length_dropWhile_less:
  "dropWhile P xs \<noteq> xs \<Longrightarrow> length (dropWhile P xs) < length xs"
proof (cases xs)
  case Nil
  assume "dropWhile P xs \<noteq> xs"
  with Nil show ?thesis by simp
next
  case (Cons x ys)
  assume "dropWhile P xs \<noteq> xs"
  with Cons have "P x" by (simp split: if_splits)
  then have "dropWhile P xs = dropWhile P ys" using Cons by simp
  moreover have "length (dropWhile P ys) \<le> length ys" by (rule length_dropWhile_le)
  ultimately show ?thesis using Cons by simp
qed

lemma py_rstrip_shorter: "length (py_rstrip s) < length s \<longleftrightarrow> py_rstrip s \<noteq> s"
proof
  assume "length (py_rstrip s) < length s"
  then show "py_rstrip s \<noteq> s" by auto
next
  assume "py_rstrip s \<noteq> s"
  then have "dropWhile py_isspace (rev s) \<noteq> rev s"
    unfolding py_rstrip_def by (metis rev_rev_ident)
  then have "length (dropWhile py_isspace (rev s)) < length (rev s)"
    by (rule length_dropWhile_less)
  then show "length (py_rstrip s) < length s" by (simp add: py_rstrip_def)
qed

subsection \<open>The two choices\<close>

lemma get_random_chapter_picked:
  assumes "pick_chapter rnd database = Inr (book, chapter_key, chapter)"
  shows "get_random_chapter rnd database =
           Inr \<lparr> title = map_of (members book) ''main_title'',
                 author = map_of (members book) ''author'',
                 chapter_name = chapter_key,
                 text = excerpt_text (chapter_text chapter),
                 link = map_of chapter ''link'' \<rparr>"
  using assms by (simp add: get_random_chapter_def)

lemma pick_chapter_total:
  assumes "database \<noteq> []"
    and "\<forall>b \<in> set database. \<exists>cs. chapters b = Some cs \<and> cs \<noteq> []"
  shows "\<exists>book chapter_key chapter. pick_chapter rnd database = Inr (book, chapter_key, chapter)"
proof -
  let ?b = "database ! (fst rnd mod length database)"
  have "?b \<in> set database" using assms(1) by simp
  then obtain cs where cs: "chapters ?b = Some cs" "cs \<noteq> []" using assms(2) by blast
  let ?k = "map fst cs ! (snd rnd mod length (map fst cs))"
  have "?k \<in> set (map fst cs)" using cs(2) by (intro nth_mem) simp
  then have "?k \<in> fst ` set cs" by simp
  then obtain ch where "map_of cs ?k = Some ch"
    by (metis domD dom_map_of_conv_image_fst)
  then show ?thesis
    using assms(1) cs by (simp add: pick_chapter_def choice_def)
qed

lemma selected_text_picked:
  assumes "pick_chapter rnd database = Inr (book, chapter_key, chapter)"
  shows "selected_text rnd database = Inr (excerpt_text (chapter_text chapter))"
  by (simp add: selected_text_def get_random_chapter_picked[OF assms])

lemma py_rstrip_unchanged:
  assumes "s \<noteq> []" and "\<not> py_isspace (last s)"
  shows "py_rstrip s = s"
proof -
  from assms(1) obtain ys x where s: "s = ys @ [x]" by (metis rev_exhaust)
  then show ?thesis using assms(2) by (simp add: py_rstrip_def)
qed

lemma pick_example:
  "pick_chapter (0, 0) [example_book full_text] =
     Inr (example_book full_text, ''Economy'', [(''text'', full_text)])"
  by (simp add: pick_chapter_def choice_def example_book_def)

lemma chapter_text_example: "chapter_text [(''text'', full_text)] = full_text"
  by (simp add: chapter_text_def)

subsection \<open>Empty chapter text\<close>

text \<open>
  Claim C9. When the chapter picked has the empty string as its text (or no
  \<^verbatim>\<open>"text"\<close> key, which \<^verbatim>\<open>get\<close> reads as the empty string), the returned text is the
  empty string: nothing is cut, and no \<^verbatim>\<open>...\<close> is appended.
\<close>

theorem empty_text_excerpt:
  assumes "pick_chapter rnd database = Inr (book, chapter_key, chapter)"
    and "chapter_text chapter = ''''"
  shows "selected_text rnd database = Inr ''''"
  using assms by (simp add: selected_text_picked excerpt_text_empty)

theorem empty_text_excerpt_witness:
  "pick_chapter (0, 0) [example_book ''''] = Inr (example_book '''', ''Economy'', [(''text'', '''')])
   \<and> chapter_text [(''text'', '''')] = ''''
   \<and> selected_text (0, 0) [example_book ''''] = Inr ''''"
  using empty_text_excerpt[OF pick_example[of "''''"] chapter_text_example[of "''''"]]
    pick_example[of "''''"] chapter_text_example[of "''''"] by simp

subsection \<open>Length of the returned text\<close>

text \<open>
  Claim C3. For a database that is not empty and whose books each have at least one
  chapter, whatever the two random draws are, \<^verbatim>\<open>get_random_chapter\<close> returns an excerpt,
  and its text has at most 2003 characters.
\<close>

theorem excerpt_length_bound:
  assumes "database \<noteq> []"
    and "\<forall>b \<in> set database. \<exists>cs. chapters b = Some cs \<and> cs \<noteq> []"
  shows "\<exists>e. get_random_chapter rnd database = Inr e \<and> length (text e) \<le> 2003"
proof -
  from pick_chapter_total[OF assms] obtain b k ch
    where "pick_chapter rnd database = Inr (b, k, ch)" by blast
  then show ?thesis
    by (simp add: get_random_chapter_picked length_excerpt_text)
qed

theorem excerpt_length_bound_witness:
  "[example_book ''Hello. World''] \<noteq> []
   \<and> (\<exists>cs. chapters (example_book ''Hello. World'') = Some cs \<and> cs \<noteq> [])
   \<and> (\<exists>e. get_random_chapter (0, 0) [example_book ''Hello. World''] = Inr e
          \<and> length (text e) \<le> 2003)"
proof -
  have h1: "[example_book ''Hello. World''] \<noteq> []" by simp
  have h2: "\<exists>cs. chapters (example_book ''Hello. World'') = Some cs \<and> cs \<noteq> []"
    by (simp add: example_book_def)
  then have h3: "\<forall>b \<in> set [example_book ''Hello. World''].
                   \<exists>cs. chapters b = Some cs \<and> cs \<noteq> []"
    by simp
  show ?thesis using excerpt_length_bound[OF h1 h3, of "(0, 0)"] h1 h2 by blast
qed

subsection \<open>Chapters of at most 2000 characters\<close>

text \<open>
  The text \<^verbatim>\<open>Hello. World\<close> has 12 characters and no trailing whitespace, yet the
  returned text is \<^verbatim>\<open>Hello....\<close>: the excerpt is cut after the period, and since it is
  then shorter than the full text the ellipsis is appended.
\<close>

theorem short_chapter_text_counterexample:
  "pick_chapter (0, 0) [example_book ''Hello. World'']
     = Inr (example_book ''Hello. World'', ''Economy'', [(''text'', ''Hello. World'')])
   \<and> chapter_text [(''text'', ''Hello. World'')] = ''Hello. World''
   \<and> length ''Hello. World'' \<le> 2000
   \<and> py_rstrip ''Hello. World'' = ''Hello. World''
   \<and> selected_text (0, 0) [example_book ''Hello. World''] = Inr ''Hello....''"
proof -
  have "py_rfind ''Hello. World'' (CHR ''.'') = 5" by (simp add: py_rfind_def)
  then have "excerpt_text ''Hello. World'' = ''Hello....''"
    by (simp add: excerpt_text_def sentence_excerpt_def)
  moreover have "py_rstrip ''Hello. World'' = ''Hello. World''"
    by (simp add: py_rstrip_def py_isspace_def)
  ultimately show ?thesis
    by (simp add: selected_text_picked[OF pick_example] pick_example chapter_text_example)
qed

text \<open>
  Claim C1, as the code has it. For a chapter whose full text has at most 2000
  characters: if no period stands among its last 199 characters, the returned text is
  the full text with trailing whitespace stripped, followed by \<^verbatim>\<open>...\<close> exactly when the
  stripping removed something; if its last period stands among the last 199 characters,
  the returned text is the full text cut right after that period, followed by
  \<^verbatim>\<open>...\<close> exactly when something followed the period.
\<close>

theorem short_chapter_text:
  assumes "pick_chapter rnd database = Inr (book, chapter_key, chapter)"
    and "full_text = chapter_text chapter"
    and "length full_text \<le> 2000"
  shows "(CHR ''.'' \<notin> set (drop (length full_text - 199) full_text) \<longrightarrow>
            selected_text rnd database =
              Inr (py_rstrip full_text @ (if py_rstrip full_text = full_text then '''' else ''...'')))
       \<and> (\<forall>p. p < length full_text \<and> full_text ! p = CHR ''.''
                \<and> CHR ''.'' \<notin> set (drop (Suc p) full_text) \<and> length full_text < p + 200 \<longrightarrow>
            selected_text rnd database =
              Inr (take (Suc p) full_text @ (if Suc p = length full_text then '''' else ''...'')))"
proof (intro conjI impI allI)
  have whole: "take 2000 full_text = full_text" using assms(3) by simp
  have sel: "selected_text rnd database = Inr (excerpt_text full_text)"
    using selected_text_picked[OF assms(1)] assms(2) by simp
  {
    assume "CHR ''.'' \<notin> set (drop (length full_text - 199) full_text)"
    then have "sentence_excerpt full_text = py_rstrip full_text"
      using sentence_excerpt_no_period[of full_text] whole by simp
    then show "selected_text rnd database =
              Inr (py_rstrip full_text @ (if py_rstrip full_text = full_text then '''' else ''...''))"
      using sel py_rstrip_shorter[of full_text] by (simp add: excerpt_text_def)
  }
  {
    fix p
    assume h: "p < length full_text \<and> full_text ! p = CHR ''.''
                \<and> CHR ''.'' \<notin> set (drop (Suc p) full_text) \<and> length full_text < p + 200"
    then have "sentence_excerpt full_text = take (Suc p) full_text"
      using sentence_excerpt_at_period[of p full_text] whole by simp
    then show "selected_text rnd database =
              Inr (take (Suc p) full_text @ (if Suc p = length full_text then '''' else ''...''))"
      using sel h by (auto simp add: excerpt_text_def min_def)
  }
qed

theorem short_chapter_text_witness:
  "pick_chapter (0, 0) [example_book ''Hello world  '']
     = Inr (example_book ''Hello world  '', ''Economy'', [(''text'', ''Hello world  '')])
   \<and> ''Hello world  '' = chapter_text [(''text'', ''Hello world  '')]
   \<and> length ''Hello world  '' \<le> 2000
   \<and> CHR ''.'' \<notin> set (drop (length ''Hello world  '' - 199) ''Hello world  '')
   \<and> selected_text (0, 0) [example_book ''Hello world  ''] = Inr ''Hello world...''
   \<and> pick_chapter (0, 0) [example_book ''Hello. World'']
     = Inr (example_book ''Hello. World'', ''Economy'', [(''text'', ''Hello. World'')])
   \<and> ''Hello. World'' = chapter_text [(''text'', ''Hello. World'')]
   \<and> length ''Hello. World'' \<le> 2000
   \<and> 5 < length ''Hello. World'' \<and> ''Hello. World'' ! 5 = CHR ''.''
   \<and> CHR ''.'' \<notin> set (drop (Suc 5) ''Hello. World'')
   \<and> length ''Hello. World'' < 5 + 200
   \<and> selected_text (0, 0) [example_book ''Hello. World''] = Inr ''Hello....''"
proof -
  have h1: "pick_chapter (0, 0) [example_book ''Hello world  '']
     = Inr (example_book ''Hello world  '', ''Economy'', [(''text'', ''Hello world  '')])"
    by (rule pick_example)
  have h2: "''Hello world  '' = chapter_text [(''text'', ''Hello world  '')]"
    by (simp add: chapter_text_def)
  have h3: "length ''Hello world  '' \<le> 2000" by simp
  have h4: "CHR ''.'' \<notin> set (drop (length ''Hello world  '' - 199) ''Hello world  '')" by simp
  have r: "py_rstrip ''Hello world  '' = ''Hello world''"
    by (simp add: py_rstrip_def py_isspace_def)
  from short_chapter_text[OF h1 h2 h3] h4
  have "selected_text (0, 0) [example_book ''Hello world  ''] =
          Inr (py_rstrip ''Hello world  ''
                 @ (if py_rstrip ''Hello world  '' = ''Hello world  '' then '''' else ''...''))"
    by blast
  then have first: "selected_text (0, 0) [example_book ''Hello world  ''] = Inr ''Hello world...''"
    using r by simp
  have k1: "pick_chapter (0, 0) [example_book ''Hello. World'']
     = Inr (example_book ''Hello. World'', ''Economy'', [(''text'', ''Hello. World'')])"
    by (rule pick_example)
  have k2: "''Hello. World'' = chapter_text [(''text'', ''Hello. World'')]"
    by (simp add: chapter_text_def)
  have k3: "length ''Hello. World'' \<le> 2000" by simp
  have k4: "5 < length ''Hello. World'' \<and> ''Hello. World'' ! 5 = CHR ''.''
              \<and> CHR ''.'' \<notin> set (drop (Suc 5) ''Hello. World'')
              \<and> length ''Hello. World'' < 5 + 200"
    by simp
  from short_chapter_text[OF k1 k2 k3] k4
  have "selected_text (0, 0) [example_book ''Hello. World''] =
          Inr (take (Suc 5) ''Hello. World''
                 @ (if Suc 5 = length ''Hello. World'' then '''' else ''...''))"
    by blast
  then have second: "selected_text (0, 0) [example_book ''Hello. World''] = Inr ''Hello....''"
    by simp
  show ?thesis using h1 h2 h3 h4 first k1 k2 k3 k4 second by blast
qed

lemma boundary_text_facts:
  "length boundary_text = 200" "boundary_text ! 0 = CHR ''.''"
  "CHR ''.'' \<notin> set (drop (Suc 0) boundary_text)" "take 2000 boundary_text = boundary_text"
  "py_rstrip boundary_text = boundary_text"
proof -
  show "length boundary_text = 200" by (simp add: boundary_text_def)
  show "boundary_text ! 0 = CHR ''.''" by (simp add: boundary_text_def)
  show "CHR ''.'' \<notin> set (drop (Suc 0) boundary_text)" by (simp add: boundary_text_def)
  show "take 2000 boundary_text = boundary_text" by (simp add: boundary_text_def)
  have "last boundary_text = CHR ''a''" by (simp add: boundary_text_def)
  then show "py_rstrip boundary_text = boundary_text"
    by (intro py_rstrip_unchanged) (simp_all add: boundary_text_def py_isspace_def)
qed

subsection \<open>Cutting at the last period\<close>

text \<open>
  \<^const>\<open>boundary_text\<close> is a period followed by 199 letters: its only period is the first
  of its final 200 characters, at index \<open>len - 200\<close>. The test
  \<^verbatim>\<open>last_period > len(excerpt) - 200\<close> is false there, so the candidate is not cut.
\<close>

theorem truncate_at_last_period_counterexample:
  "length (take 2000 boundary_text) = 200
   \<and> py_rfind (take 2000 boundary_text) (CHR ''.'') = int (length (take 2000 boundary_text)) - 200
   \<and> take (Suc 0) (take 2000 boundary_text) = ''.''
   \<and> sentence_excerpt boundary_text = boundary_text
   \<and> sentence_excerpt boundary_text \<noteq> ''.''
   \<and> selected_text (0, 0) [example_book boundary_text] = Inr boundary_text"
proof -
  have r: "py_rfind boundary_text (CHR ''.'') = int 0"
    by (rule py_rfind_last_drop) (simp_all add: boundary_text_facts)
  have s: "sentence_excerpt boundary_text = boundary_text"
    using sentence_excerpt_at_period[of 0 boundary_text] by (simp add: boundary_text_facts)
  have n: "boundary_text \<noteq> ''.''"
  proof
    assume "boundary_text = ''.''"
    then have "length boundary_text = length ''.''" by (rule arg_cong)
    then show False by (simp add: boundary_text_facts(1))
  qed
  have t: "take (Suc 0) boundary_text = ''.''" by (simp add: boundary_text_def)
  have "excerpt_text boundary_text = boundary_text" by (simp add: excerpt_text_def s)
  then have "selected_text (0, 0) [example_book boundary_text] = Inr boundary_text"
    by (simp add: selected_text_picked[OF pick_example] chapter_text_example)
  then show ?thesis using r s n t by (simp add: boundary_text_facts)
qed

text \<open>
  Claim C2, as the code has it. Let \<open>p\<close> be the index of the last period of the
  candidate, the first \<open>min(2000, len(text))\<close> characters of the chapter text. If \<open>p\<close> is
  greater than \<open>len - 200\<close>, that is, the period is among the final 199 characters, the
  excerpt is the candidate cut right after that period. Otherwise, and so for a period
  exactly 200 characters from the end, the excerpt is the candidate with its trailing
  whitespace stripped. The returned text is the excerpt, followed by \<^verbatim>\<open>...\<close> when the
  excerpt is shorter than the chapter text.
\<close>

theorem truncate_at_last_period:
  assumes "pick_chapter rnd database = Inr (book, chapter_key, chapter)"
    and "candidate = take 2000 (chapter_text chapter)"
    and "p < length candidate" and "candidate ! p = CHR ''.''"
    and "CHR ''.'' \<notin> set (drop (Suc p) candidate)"
  shows "sentence_excerpt (chapter_text chapter) =
           (if length candidate < p + 200 then take (Suc p) candidate else py_rstrip candidate)
       \<and> selected_text rnd database =
           Inr (sentence_excerpt (chapter_text chapter)
                  @ (if length (sentence_excerpt (chapter_text chapter))
                          < length (chapter_text chapter)
                     then ''...'' else ''''))"
proof
  show "sentence_excerpt (chapter_text chapter) =
           (if length candidate < p + 200 then take (Suc p) candidate else py_rstrip candidate)"
    using sentence_excerpt_at_period[of p "chapter_text chapter"] assms(2-5) by simp
  show "selected_text rnd database =
           Inr (sentence_excerpt (chapter_text chapter)
                  @ (if length (sentence_excerpt (chapter_text chapter))
                          < length (chapter_text chapter)
                     then ''...'' else ''''))"
    using selected_text_picked[OF assms(1)] by (simp add: excerpt_text_def)
qed

theorem truncate_at_last_period_witness:
  "pick_chapter (0, 0) [example_book ''Hello. World'']
     = Inr (example_book ''Hello. World'', ''Economy'', [(''text'', ''Hello. World'')])
   \<and> ''Hello. World'' = take 2000 (chapter_text [(''text'', ''Hello. World'')])
   \<and> 5 < length ''Hello. World'' \<and> ''Hello. World'' ! 5 = CHR ''.''
   \<and> CHR ''.'' \<notin> set (drop (Suc 5) ''Hello. World'')
   \<and> sentence_excerpt (chapter_text [(''text'', ''Hello. World'')]) = ''Hello.''
   \<and> selected_text (0, 0) [example_book ''Hello. World''] = Inr ''Hello....''"
proof -
  have h1: "pick_chapter (0, 0) [example_book ''Hello. World'']
     = Inr (example_book ''Hello. World'', ''Economy'', [(''text'', ''Hello. World'')])"
    by (rule pick_example)
  have h2: "''Hello. World'' = take 2000 (chapter_text [(''text'', ''Hello. World'')])"
    by (simp add: chapter_text_def)
  have h3: "5 < length ''Hello. World''" by simp
  have h4: "''Hello. World'' ! 5 = CHR ''.''" by simp
  have h5: "CHR ''.'' \<notin> set (drop (Suc 5) ''Hello. World'')" by simp
  have c: "chapter_text [(''text'', ''Hello. World'')] = ''Hello. World''"
    by (simp add: chapter_text_def)
  from truncate_at_last_period[OF h1 h2 h3 h4 h5]
  have "sentence_excerpt (chapter_text [(''text'', ''Hello. World'')]) = ''Hello.''
      \<and> selected_text (0, 0) [example_book ''Hello. World''] = Inr ''Hello....''"
    by (simp add: c)
  then show ?thesis using h1 h2 h3 h4 h5 by blast
qed

section \<open>Properties of the publisher\<close>

subsection \<open>The retry loop\<close>

lemma attempt_failsD:
  assumes "attempt_fails t k url payload"
  obtains e where "deliver t k url payload = Inl e" and "kind e = RequestException"
  using assms by (auto simp: attempt_fails_def split: sum.splits)

lemma retry_loop_failed_step:
  assumes "deliver t a url payload = Inl e" and "kind e = RequestException"
    and "a < n" and "0 \<le> backoff * a"
  shows "retry_loop t url payload n backoff (Some l) (a # rest) =
           (fst (retry_loop t url payload n backoff (Some l) rest),
            [Post url payload, Error (AttemptFailed a e), Sleep (backoff * a)]
              @ snd (retry_loop t url payload n backoff (Some l) rest))"
  using assms by (simp add: split_beta)

lemma retry_loop_last_failure:
  assumes "deliver t n url payload = Inl e" and "kind e = RequestException"
  shows "retry_loop t url payload n backoff (Some l) (n # rest) =
           (Inl e, [Post url payload, Error (AttemptFailed n e), Error MaxRetriesReached])"
  using assms by simp

lemma retry_loop_success:
  assumes "deliver t a url payload = Inr result"
  shows "retry_loop t url payload n backoff (Some l) (a # rest) =
           (Inr (Some result), [Post url payload, Info (PostSuccessful (map_of result ''id''))])"
  using assms by simp

lemma retry_loop_no_logger:
  "retry_loop t url payload n backoff None (a # rest) =
     (case deliver t a url payload of
        Inr result \<Rightarrow> (Inl (none_has_no_attribute ''info''), [Post url payload])
      | Inl e \<Rightarrow>
          (Inl (if kind e = RequestException then none_has_no_attribute ''error'' else e),
           [Post url payload]))"
  by (simp split: sum.splits)

lemma attempts_made_simps:
  "attempts_made [] = 0"
  "attempts_made (Post url payload # evs) = Suc (attempts_made evs)"
  "attempts_made (Sleep d # evs) = attempts_made evs"
  "attempts_made (Info m # evs) = attempts_made evs"
  "attempts_made (Error m # evs) = attempts_made evs"
  by (simp_all add: attempts_made_def)

lemma retry_loop_all_fail:
  assumes "1 \<le> a" and "a \<le> n" and "0 \<le> backoff"
    and "\<forall>k. a \<le> k \<and> k \<le> n \<longrightarrow> attempt_fails t k url payload"
  shows "\<exists>e. deliver t n url payload = Inl e \<and> kind e = RequestException
           \<and> fst (retry_loop t url payload n backoff (Some l) [a..n]) = Inl e
           \<and> attempts_made (snd (retry_loop t url payload n backoff (Some l) [a..n]))
               = nat (n - a + 1)
           \<and> sleeps (snd (retry_loop t url payload n backoff (Some l) [a..n]))
               = map (\<lambda>k. backoff * k) [a..n - 1]"
  using assms
proof (induction a n rule: upto.induct)
  case (1 a n)
  from "1.prems"(2,4) have "attempt_fails t a url payload" by simp
  then obtain e where e: "deliver t a url payload = Inl e" "kind e = RequestException"
    by (rule attempt_failsD)
  have unfold: "[a..n] = a # [a + 1..n]" using "1.prems"(2) by (rule upto_rec1)
  show ?case
  proof (cases "a < n")
    case False
    then have "a = n" using "1.prems"(2) by simp
    then show ?thesis
      using e retry_loop_last_failure[OF e(1)[unfolded \<open>a = n\<close>], of backoff l "[n + 1..n]"]
      by (simp add: unfold attempts_made_simps)
  next
    case True
    have nonneg: "0 \<le> backoff * a" using "1.prems"(1,3) by simp
    have "1 \<le> a + 1" "a + 1 \<le> n" using "1.prems"(1) True by simp_all
    moreover have "\<forall>k. a + 1 \<le> k \<and> k \<le> n \<longrightarrow> attempt_fails t k url payload"
      using "1.prems"(4) by simp
    ultimately obtain e' where e': "deliver t n url payload = Inl e'" "kind e' = RequestException"
      "fst (retry_loop t url payload n backoff (Some l) [a + 1..n]) = Inl e'"
      "attempts_made (snd (retry_loop t url payload n backoff (Some l) [a + 1..n]))
         = nat (n - (a + 1) + 1)"
      "sleeps (snd (retry_loop t url payload n backoff (Some l) [a + 1..n]))
               = map (\<lambda>k. backoff * k) [a + 1..n - 1]"
      using "1.IH"[OF "1.prems"(2)] "1.prems"(3) by blast
    have step: "retry_loop t url payload n backoff (Some l) [a..n] =
           (fst (retry_loop t url payload n backoff (Some l) [a + 1..n]),
            [Post url payload, Error (AttemptFailed a e), Sleep (backoff * a)]
              @ snd (retry_loop t url payload n backoff (Some l) [a + 1..n]))"
      unfolding unfold using e True nonneg by (rule retry_loop_failed_step)
    have "[a..n - 1] = a # [a + 1..n - 1]" using True by (intro upto_rec1) simp
    then show ?thesis
      using e' True by (simp add: step attempts_made_simps nat_add_distrib)
  qed
qed

lemma retry_loop_first_success:
  assumes "1 \<le> a" and "a \<le> k" and "k \<le> n" and "0 \<le> backoff"
    and "\<forall>j. a \<le> j \<and> j < k \<longrightarrow> attempt_fails t j url payload"
    and "deliver t k url payload = Inr result"
  shows "fst (retry_loop t url payload n backoff (Some l) [a..n]) = Inr (Some result)
           \<and> attempts_made (snd (retry_loop t url payload n backoff (Some l) [a..n]))
               = nat (k - a + 1)
           \<and> sleeps (snd (retry_loop t url payload n backoff (Some l) [a..n]))
               = map (\<lambda>j. backoff * j) [a..k - 1]"
  using assms
proof (induction a n rule: upto.induct)
  case (1 a n)
  have an: "a \<le> n" using "1.prems"(2,3) by simp
  have unfold: "[a..n] = a # [a + 1..n]" using an by (rule upto_rec1)
  show ?case
  proof (cases "a < k")
    case False
    then have "a = k" using "1.prems"(2) by simp
    then have d: "deliver t a url payload = Inr result" using "1.prems"(6) by simp
    have "retry_loop t url payload n backoff (Some l) [a..n] =
            (Inr (Some result),
             [Post url payload, Info (PostSuccessful (map_of result ''id''))])"
      unfolding unfold using d by (rule retry_loop_success)
    then show ?thesis
      using \<open>a = k\<close> by (simp add: attempts_made_simps)
  next
    case True
    then have "attempt_fails t a url payload" using "1.prems"(5) by simp
    then obtain e where e: "deliver t a url payload = Inl e" "kind e = RequestException"
      by (rule attempt_failsD)
    have nonneg: "0 \<le> backoff * a" using "1.prems"(1,4) by simp
    have lt: "a < n" using True "1.prems"(3) by simp
    have "1 \<le> a + 1" "a + 1 \<le> k" using "1.prems"(1) True by simp_all
    moreover have "\<forall>j. a + 1 \<le> j \<and> j < k \<longrightarrow> attempt_fails t j url payload"
      using "1.prems"(5) by simp
    ultimately have IH:
      "fst (retry_loop t url payload n backoff (Some l) [a + 1..n]) = Inr (Some result)
           \<and> attempts_made (snd (retry_loop t url payload n backoff (Some l) [a + 1..n]))
               = nat (k - (a + 1) + 1)
           \<and> sleeps (snd (retry_loop t url payload n backoff (Some l) [a + 1..n]))
               = map (\<lambda>j. backoff * j) [a + 1..k - 1]"
      using "1.IH"[OF an] "1.prems"(3,4,6) by blast
    have step: "retry_loop t url payload n backoff (Some l) [a..n] =
           (fst (retry_loop t url payload n backoff (Some l) [a + 1..n]),
            [Post url payload, Error (AttemptFailed a e), Sleep (backoff * a)]
              @ snd (retry_loop t url payload n backoff (Some l) [a + 1..n]))"
      unfolding unfold using e lt nonneg by (rule retry_loop_failed_step)
    have "[a..k - 1] = a # [a + 1..k - 1]" using True by (intro upto_rec1) simp
    then show ?thesis
      using IH True by (simp add: step attempts_made_simps nat_add_distrib)
  qed
qed

lemma post_to_facebook_retry_loop:
  "post_to_facebook t page_id access_token message lnk max_retries backoff lg =
     retry_loop t (feed_url page_id) (build_payload access_token message lnk)
       max_retries backoff lg [1..max_retries]"
  by (simp add: post_to_facebook_def)

lemma upto_1_3: "[1..3] = [1, 2, 3::int]"
  by (simp add: upto_rec1)

lemma deliver_refusing:
  "deliver refusing k url payload = Inl (Exn RequestException ''connection refused'')"
  by (simp add: deliver_def refusing_def)

lemma deliver_accepting:
  "deliver accepting k url payload =
     Inr [(''id'', ''123_456''), (''post_supports_client_mutation_id'', ''true'')]"
  by (simp add: deliver_def accepting_def)

lemma attempt_fails_refusing: "attempt_fails refusing k url payload"
  by (simp add: attempt_fails_def deliver_refusing)

lemma attempt_fails_flaky: "k < 3 \<Longrightarrow> attempt_fails flaky k url payload"
  by (simp add: attempt_fails_def deliver_def flaky_def refusing_def)

text \<open>
  Without a logger no run gets past its first request: whatever the transport answers,
  one request is sent, nothing is returned, and there is no wait.
\<close>

lemma no_logger_one_attempt:
  assumes "1 \<le> max_retries"
  shows "(\<exists>e. fst (post_to_facebook t page_id access_token message lnk max_retries backoff None)
               = Inl e)
       \<and> attempts_made
           (snd (post_to_facebook t page_id access_token message lnk max_retries backoff None))
           = 1
       \<and> sleeps (snd (post_to_facebook t page_id access_token message lnk max_retries backoff None))
           = []"
proof -
  have "[1..max_retries] = 1 # [1 + 1..max_retries]" using assms by (rule upto_rec1)
  then show ?thesis
    unfolding post_to_facebook_retry_loop
    by (simp add: retry_loop_no_logger attempts_made_simps split: sum.splits)
qed

subsection \<open>A transport that always fails\<close>

text \<open>
  Claim C5 says that, when every delivery attempt fails, the function makes exactly
  \<^verbatim>\<open>max_retries\<close> attempts and then raises the last failure. The code departs from this at
  two inputs, both with a transport that refuses every request. Called with its own
  default \<^verbatim>\<open>logger=None\<close> and three attempts allowed, it sends one request and raises the
  \<^verbatim>\<open>AttributeError\<close> of \<^verbatim>\<open>logger.error\<close> (line 94), not the failure of the transport. Called
  with a logger and \<^verbatim>\<open>max_retries=0\<close>, the loop body never runs: it sends nothing,
  raises nothing and returns \<^verbatim>\<open>None\<close>, against its annotation \<^verbatim>\<open>-> dict\<close>.
\<close>

theorem publish_all_fail_defects:
  "attempt_fails refusing 1 (feed_url ''page'') (build_payload ''token'' ''hello'' None)
   \<and> fst (post_to_facebook refusing ''page'' ''token'' ''hello'' None 3 5 None)
       = Inl (Exn AttributeError
               ([CHR 0x27] @ ''NoneType'' @ [CHR 0x27] @ '' object has no attribute ''
                  @ [CHR 0x27] @ ''error'' @ [CHR 0x27]))
   \<and> attempts_made (snd (post_to_facebook refusing ''page'' ''token'' ''hello'' None 3 5 None)) = 1
   \<and> fst (post_to_facebook refusing ''page'' ''token'' ''hello'' None 0 5 (Some Logger))
       = Inr None
   \<and> attempts_made
       (snd (post_to_facebook refusing ''page'' ''token'' ''hello'' None 0 5 (Some Logger))) = 0"
  by (simp add: attempt_fails_refusing post_to_facebook_retry_loop upto_1_3 deliver_refusing
        attempts_made_simps none_has_no_attribute_def)

text \<open>
  What the code does do: with a logger, \<^verbatim>\<open>max_retries\<close> at least 1 and a \<^verbatim>\<open>backoff\<close> that
  is not negative, if each of the attempts 1 to \<^verbatim>\<open>max_retries\<close> fails with an exception the
  \<^verbatim>\<open>except\<close> clause catches, exactly \<^verbatim>\<open>max_retries\<close> requests are sent and the exception of
  the last attempt is raised.
\<close>

lemma all_fail_with_logger:
  assumes "1 \<le> max_retries" and "0 \<le> backoff"
    and "\<forall>k. 1 \<le> k \<and> k \<le> max_retries \<longrightarrow>
           attempt_fails t k (feed_url page_id) (build_payload access_token message lnk)"
  shows "\<exists>e. deliver t max_retries (feed_url page_id) (build_payload access_token message lnk)
               = Inl e
           \<and> kind e = RequestException
           \<and> fst (post_to_facebook t page_id access_token message lnk max_retries backoff
                    (Some l))
               = Inl e
           \<and> attempts_made
               (snd (post_to_facebook t page_id access_token message lnk max_retries backoff
                       (Some l)))
               = nat max_retries"
  using retry_loop_all_fail[OF _ assms(1,2,3), of l]
  by (auto simp add: post_to_facebook_retry_loop)

subsection \<open>A successful attempt\<close>

text \<open>
  What \<^verbatim>\<open>post_to_facebook\<close> returns is \<^verbatim>\<open>response.json()\<close> as a whole: for a body with
  two entries it returns both, not the value stored under \<^verbatim>\<open>"id"\<close>.
\<close>

theorem publish_first_success_counterexample:
  "deliver accepting 1 (feed_url ''page'') (build_payload ''token'' ''hello'' None)
     = Inr [(''id'', ''123_456''), (''post_supports_client_mutation_id'', ''true'')]
   \<and> fst (post_to_facebook accepting ''page'' ''token'' ''hello'' None 3 5 (Some Logger))
     = Inr (Some [(''id'', ''123_456''), (''post_supports_client_mutation_id'', ''true'')])"
  by (simp add: post_to_facebook_retry_loop deliver_accepting upto_1_3)

text \<open>
  Claim C7, as the code has it. Let a logger be supplied, let \<^verbatim>\<open>backoff\<close> not be negative,
  and let attempt \<open>k\<close>, with \<open>1 \<le> k \<le> max_retries\<close>, be the first that does not fail, the
  attempts before it having failed with an exception the \<^verbatim>\<open>except\<close> clause catches. Then
  \<^verbatim>\<open>post_to_facebook\<close> returns the parsed response body of attempt \<open>k\<close>, whole (the
  identifier is its entry \<^verbatim>\<open>"id"\<close>), and sends exactly \<open>k\<close> requests: none after the
  success.
\<close>

theorem publish_first_success:
  assumes "1 \<le> k" and "k \<le> max_retries" and "0 \<le> backoff"
    and "\<forall>j. 1 \<le> j \<and> j < k \<longrightarrow>
           attempt_fails t j (feed_url page_id) (build_payload access_token message lnk)"
    and "deliver t k (feed_url page_id) (build_payload access_token message lnk) = Inr result"
    and "lg = Some l"
  shows "fst (post_to_facebook t page_id access_token message lnk max_retries backoff lg)
           = Inr (Some result)
       \<and> attempts_made
           (snd (post_to_facebook t page_id access_token message lnk max_retries backoff lg))
           = nat k"
  using retry_loop_first_success[OF _ assms(1,2,3,4,5), of l] assms(6)
  by (simp add: post_to_facebook_retry_loop)

theorem publish_first_success_witness:
  "(1::int) \<le> 3 \<and> (3::int) \<le> 3 \<and> (0::int) \<le> 5
   \<and> attempt_fails flaky 1 (feed_url ''page'') (build_payload ''token'' ''hello'' None)
   \<and> attempt_fails flaky 2 (feed_url ''page'') (build_payload ''token'' ''hello'' None)
   \<and> deliver flaky 3 (feed_url ''page'') (build_payload ''token'' ''hello'' None)
       = Inr [(''id'', ''123_456''), (''post_supports_client_mutation_id'', ''true'')]
   \<and> fst (post_to_facebook flaky ''page'' ''token'' ''hello'' None 3 5 (Some Logger))
       = Inr (Some [(''id'', ''123_456''), (''post_supports_client_mutation_id'', ''true'')])
   \<and> attempts_made
       (snd (post_to_facebook flaky ''page'' ''token'' ''hello'' None 3 5 (Some Logger))) = 3"
proof -
  have h4: "\<forall>j. 1 \<le> j \<and> j < 3 \<longrightarrow>
           attempt_fails flaky j (feed_url ''page'') (build_payload ''token'' ''hello'' None)"
    using attempt_fails_flaky by simp
  have h5: "deliver flaky 3 (feed_url ''page'') (build_payload ''token'' ''hello'' None)
       = Inr [(''id'', ''123_456''), (''post_supports_client_mutation_id'', ''true'')]"
    by (simp add: deliver_def flaky_def accepting_def)
  have h6: "Some Logger = Some Logger" by simp
  have "(1::int) \<le> 3" and "(3::int) \<le> 3" and "(0::int) \<le> 5" by simp_all
  from publish_first_success[OF this h4 h5 h6]
  show ?thesis using h5 attempt_fails_flaky[of 1] attempt_fails_flaky[of 2] by simp
qed

subsection \<open>Waiting between attempts\<close>

lemma sleeps_count:
  "length (sleeps (snd (retry_loop t url payload n backoff lg [a..n]))) \<le> nat (n - a)"
proof (induction a n rule: upto.induct)
  case (1 a n)
  show ?case
  proof (cases "a \<le> n")
    case False
    then show ?thesis by simp
  next
    case True
    have unfold: "[a..n] = a # [a + 1..n]" using True by (rule upto_rec1)
    have IH: "length (sleeps (snd (retry_loop t url payload n backoff lg [a + 1..n])))
                \<le> nat (n - (a + 1))"
      using "1.IH"[OF True] .
    show ?thesis
      unfolding unfold using IH
      by (auto simp add: split_beta split: sum.splits option.splits)
  qed
qed

lemma posted_payloads_retry_loop:
  "set (posted_payloads (snd (retry_loop t url payload n backoff lg xs))) \<subseteq> {payload}"
  by (induction xs) (auto simp add: split_beta split: sum.splits option.splits)

lemma posted_payloads_first:
  "\<exists>ps. posted_payloads (snd (retry_loop t url payload n backoff lg (a # xs))) = payload # ps"
  by (auto simp add: split_beta split: sum.splits option.splits)

text \<open>
  Claim C6 says that under the default settings a failed attempt with attempts remaining
  is followed by a wait of \<open>backoff * k\<close> before the next attempt. The defaults of the
  function include \<^verbatim>\<open>logger=None\<close>. Called so, with a transport whose first two answers are
  failures, the function sends one request and then raises the \<^verbatim>\<open>AttributeError\<close> of
  \<^verbatim>\<open>logger.error\<close> (line 94): it neither waits nor tries again.
\<close>

theorem default_run_without_logger:
  "attempt_fails flaky 1 (feed_url ''page'') (build_payload ''token'' ''hello'' None)
   \<and> attempt_fails flaky 2 (feed_url ''page'') (build_payload ''token'' ''hello'' None)
   \<and> fst (post_to_facebook flaky ''page'' ''token'' ''hello'' None 3 5 None)
       = Inl (Exn AttributeError
               ([CHR 0x27] @ ''NoneType'' @ [CHR 0x27] @ '' object has no attribute ''
                  @ [CHR 0x27] @ ''error'' @ [CHR 0x27]))
   \<and> timeline (snd (post_to_facebook flaky ''page'' ''token'' ''hello'' None 3 5 None))
       = [Post (feed_url ''page'') (build_payload ''token'' ''hello'' None)]
   \<and> sleeps (snd (post_to_facebook flaky ''page'' ''token'' ''hello'' None 3 5 None)) = []"
proof -
  have d: "deliver flaky 1 (feed_url ''page'') (build_payload ''token'' ''hello'' None)
             = Inl (Exn RequestException ''connection refused'')"
    by (simp add: deliver_def flaky_def refusing_def)
  show ?thesis
    using attempt_fails_flaky[of 1] attempt_fails_flaky[of 2]
    by (simp add: post_to_facebook_retry_loop upto_1_3 retry_loop_no_logger d
          none_has_no_attribute_def)
qed

text \<open>
  What the code does do when a logger is supplied, with the default \<^verbatim>\<open>max_retries=3\<close> and
  \<^verbatim>\<open>backoff=5\<close>, whatever the transport does: after a failed first attempt the function
  sleeps \<open>5 * 1\<close> seconds before the second request, after a failed second attempt
  \<open>5 * 2\<close> seconds before the third, and it never sleeps otherwise; so a run whose first
  two attempts fail sleeps 5 and then 10 seconds, and there are at most \<open>3 - 1\<close> waits. For
  any \<^verbatim>\<open>max_retries\<close>, with or without a logger, the number of waits is at most
  \<^verbatim>\<open>max_retries - 1\<close>.
\<close>

lemma default_backoff_with_logger:
  "timeline (snd (post_to_facebook t page_id access_token message lnk 3 5 (Some l))) =
     (if attempt_fails t 1 (feed_url page_id) (build_payload access_token message lnk) then
        if attempt_fails t 2 (feed_url page_id) (build_payload access_token message lnk) then
          [Post (feed_url page_id) (build_payload access_token message lnk), Sleep 5,
           Post (feed_url page_id) (build_payload access_token message lnk), Sleep 10,
           Post (feed_url page_id) (build_payload access_token message lnk)]
        else
          [Post (feed_url page_id) (build_payload access_token message lnk), Sleep 5,
           Post (feed_url page_id) (build_payload access_token message lnk)]
      else [Post (feed_url page_id) (build_payload access_token message lnk)])
   \<and> sleeps (snd (post_to_facebook t page_id access_token message lnk 3 5 (Some l))) =
     (if attempt_fails t 1 (feed_url page_id) (build_payload access_token message lnk) then
        if attempt_fails t 2 (feed_url page_id) (build_payload access_token message lnk) then
          [5, 10]
        else [5]
      else [])
   \<and> length (sleeps (snd (post_to_facebook t page_id access_token message lnk 3 5 (Some l))))
       \<le> 3 - 1
   \<and> length (sleeps
         (snd (post_to_facebook t page_id access_token message lnk max_retries backoff lg)))
       \<le> nat (max_retries - 1)"
proof -
  let ?url = "feed_url page_id" and ?p = "build_payload access_token message lnk"
  have run: "post_to_facebook t page_id access_token message lnk 3 5 (Some l)
               = retry_loop t ?url ?p 3 5 (Some l) [1, 2, 3]"
    by (simp add: post_to_facebook_retry_loop upto_1_3)
  have tl: "timeline (snd (retry_loop t ?url ?p 3 5 (Some l) [1, 2, 3])) =
     (if attempt_fails t 1 ?url ?p then
        if attempt_fails t 2 ?url ?p then [Post ?url ?p, Sleep 5, Post ?url ?p, Sleep 10, Post ?url ?p]
        else [Post ?url ?p, Sleep 5, Post ?url ?p]
      else [Post ?url ?p])"
    by (simp add: attempt_fails_def split: sum.splits)
  have sl: "sleeps (snd (retry_loop t ?url ?p 3 5 (Some l) [1, 2, 3])) =
     (if attempt_fails t 1 ?url ?p then if attempt_fails t 2 ?url ?p then [5, 10] else [5]
      else [])"
    by (simp add: attempt_fails_def split: sum.splits)
  have bound: "length (sleeps
         (snd (post_to_facebook t page_id access_token message lnk max_retries backoff lg)))
       \<le> nat (max_retries - 1)"
    unfolding post_to_facebook_retry_loop by (rule sleeps_count)
  show ?thesis unfolding run tl sl using bound by simp
qed

subsection \<open>The link in the payload\<close>

text \<open>
  Claim C10. An empty link gives the same payload as no link; the payload has a
  \<^verbatim>\<open>"link"\<close> entry exactly when the link argument is a string that is not empty, and the
  entry then holds that string; every request of a run carries this payload.
\<close>

theorem link_field:
  "build_payload access_token message (Some '''') = build_payload access_token message None
   \<and> (''link'' \<in> fst ` set (build_payload access_token message lnk)
        \<longleftrightarrow> (\<exists>l. lnk = Some l \<and> l \<noteq> ''''))
   \<and> map_of (build_payload access_token message lnk) ''link''
        = (if lnk = Some '''' then None else lnk)
   \<and> set (posted_payloads
            (snd (post_to_facebook t page_id access_token message lnk max_retries backoff lg)))
        \<subseteq> {build_payload access_token message lnk}"
proof (intro conjI)
  show "build_payload access_token message (Some '''') = build_payload access_token message None"
    by (simp add: build_payload_def)
  show "''link'' \<in> fst ` set (build_payload access_token message lnk)
        \<longleftrightarrow> (\<exists>l. lnk = Some l \<and> l \<noteq> '''')"
    by (cases lnk) (auto simp add: build_payload_def Let_def)
  show "map_of (build_payload access_token message lnk) ''link''
        = (if lnk = Some '''' then None else lnk)"
    by (cases lnk) (simp_all add: build_payload_def Let_def)
  show "set (posted_payloads
            (snd (post_to_facebook t page_id access_token message lnk max_retries backoff lg)))
        \<subseteq> {build_payload access_token message lnk}"
    unfolding post_to_facebook_retry_loop by (rule posted_payloads_retry_loop)
qed

theorem link_field_witness:
  "''link'' \<notin> fst ` set (build_payload ''token'' ''hello'' (Some ''''))
   \<and> ''link'' \<notin> fst ` set (build_payload ''token'' ''hello'' None)
   \<and> ''link'' \<in> fst ` set (build_payload ''token'' ''hello'' (Some ''https://example.org/economy''))
   \<and> posted_payloads
       (snd (post_to_facebook accepting ''page'' ''token'' ''hello'' (Some '''') 3 5 (Some Logger)))
       = [[(''message'', ''hello''), (''published'', ''true''), (''access_token'', ''token'')]]"
proof -
  have "posted_payloads
          (snd (post_to_facebook accepting ''page'' ''token'' ''hello'' (Some '''') 3 5 (Some Logger)))
       = [build_payload ''token'' ''hello'' (Some '''')]"
    by (simp add: post_to_facebook_retry_loop upto_1_3 deliver_accepting)
  then show ?thesis
    using link_field[of "''token''" "''hello''" "Some ''''"]
      link_field[of "''token''" "''hello''" "Some ''https://example.org/economy''"]
      link_field[of "''token''" "''hello''" None]
    by (simp add: build_payload_def Let_def)
qed

section \<open>Properties of the request handler\<close>

lemma posted_payloads_append:
  "posted_payloads (xs @ ys) = posted_payloads xs @ posted_payloads ys"
  by (induction xs rule: posted_payloads.induct) simp_all

lemma posted_payloads_default_run:
  "\<exists>n. posted_payloads (snd (post_to_facebook t page_id access_token message lnk 3 5 (Some Logger)))
         = replicate (Suc n) (build_payload access_token message lnk)"
proof -
  let ?evs = "snd (post_to_facebook t page_id access_token message lnk 3 5 (Some Logger))"
  let ?p = "build_payload access_token message lnk"
  have "set (posted_payloads ?evs) \<subseteq> {?p}"
    unfolding post_to_facebook_retry_loop by (rule posted_payloads_retry_loop)
  then have all: "posted_payloads ?evs = replicate (length (posted_payloads ?evs)) ?p"
    by (intro replicate_eqI) auto
  obtain ps where "posted_payloads ?evs = ?p # ps"
    unfolding post_to_facebook_retry_loop upto_1_3 using posted_payloads_first by blast
  then have "length (posted_payloads ?evs) = Suc (length ps)" by simp
  then show ?thesis using all by metis
qed

lemma message_in_payload:
  "map_of (build_payload access_token message lnk) ''message'' = Some message"
  by (cases lnk) (simp_all add: build_payload_def Let_def)

lemma create_post_events:
  assumes "get_random_chapter rnd database = Inr item"
  shows "posted_payloads (snd (create_post page_id access_token database rnd t)) =
           posted_payloads
             (snd (post_to_facebook t page_id access_token (post_message item) (link item) 3 5 (Some Logger)))"
  using assms
  by (auto simp add: create_post_def posted_payloads_append Let_def
        split: prod.splits sum.splits option.splits)

lemma create_post_messages:
  assumes "get_random_chapter rnd database = Inr item"
  shows "\<exists>n. posted_messages (snd (create_post page_id access_token database rnd t))
              = replicate (Suc n) (Some (post_message item))"
proof -
  obtain n where
    "posted_payloads
       (snd (post_to_facebook t page_id access_token (post_message item) (link item) 3 5 (Some Logger)))
     = replicate (Suc n) (build_payload access_token (post_message item) (link item))"
    using posted_payloads_default_run by blast
  then have "posted_messages (snd (create_post page_id access_token database rnd t))
              = replicate (Suc n) (Some (post_message item))"
    unfolding posted_messages_def create_post_events[OF assms]
    by (simp only: map_replicate message_in_payload)
  then show ?thesis ..
qed

lemma first_line_prefix:
  assumes "CHR 0x0A \<notin> set s"
  shows "first_line (s @ CHR 0x0A # rest) = s"
  using assms by (auto simp add: first_line_def takeWhile_tail)

subsection \<open>The first line of the message\<close>

text \<open>
  The handler reads the title with \<^verbatim>\<open>book.get("main_title")\<close>. A book that has a
  \<^verbatim>\<open>"title"\<close> member and an \<^verbatim>\<open>"author"\<close> member, but no \<^verbatim>\<open>"main_title"\<close>, is posted with
  the first line \<^verbatim>\<open>None, Thoreau\<close>: the title is not on it.
\<close>

theorem message_first_line_counterexample:
  "map_of (members titled_book) ''title'' = Some ''Walden''
   \<and> map_of (members titled_book) ''author'' = Some ''Thoreau''
   \<and> posted_first_lines (snd (create_post ''page'' ''token'' [titled_book] (0, 0) accepting))
       = [Some ''None, Thoreau'']"
proof -
  have r: "py_rfind ''Simplify.'' (CHR ''.'') = 8" by (simp add: py_rfind_def)
  have x: "excerpt_text ''Simplify.'' = ''Simplify.''"
    by (simp add: excerpt_text_def sentence_excerpt_def r)
  have g: "get_random_chapter (0, 0) [titled_book] =
             Inr \<lparr> title = None, author = Some ''Thoreau'', chapter_name = ''Economy'',
                   text = ''Simplify.'', link = None \<rparr>"
    by (simp add: get_random_chapter_def pick_chapter_def choice_def titled_book_def
          chapter_text_def x)
  have "posted_payloads (snd (create_post ''page'' ''token'' [titled_book] (0, 0) accepting))
          = [build_payload ''token''
               (''None, Thoreau'' @ [CHR 0x0A] @ ''Economy'' @ [CHR 0x0A, CHR 0x0A] @ ''Simplify.'')
               None]"
    by (simp add: create_post_def g post_to_facebook_retry_loop upto_1_3 deliver_accepting
          post_message_def py_format_def)
  then have "posted_first_lines
               (snd (create_post ''page'' ''token'' [titled_book] (0, 0) accepting))
             = [Some ''None, Thoreau'']"
    by (simp add: posted_first_lines_def posted_messages_def message_in_payload first_line_def)
  then show ?thesis by (simp add: titled_book_def)
qed

text \<open>
  Claim C4, as the code has it. When the book picked has a \<^verbatim>\<open>"main_title"\<close> member and
  an \<^verbatim>\<open>"author"\<close> member, every request of the run (there is at least one) carries the
  message that starts with the title, a comma and a space, the author and a line feed,
  followed by the chapter name, an empty line and the excerpt text. If neither the title
  nor the author contains a line feed, the first line of the message is exactly
  \<open>title, author\<close>.
\<close>

theorem message_first_line:
  assumes "pick_chapter rnd database = Inr (book, chapter_key, chapter)"
    and "map_of (members book) ''main_title'' = Some ttl"
    and "map_of (members book) ''author'' = Some auth"
  shows "(\<exists>n. posted_messages (snd (create_post page_id access_token database rnd t))
              = replicate (Suc n)
                  (Some (ttl @ '', '' @ auth @ [CHR 0x0A] @ chapter_key @ [CHR 0x0A, CHR 0x0A]
                           @ excerpt_text (chapter_text chapter))))
       \<and> (CHR 0x0A \<notin> set ttl \<and> CHR 0x0A \<notin> set auth \<longrightarrow>
            (\<exists>n. posted_first_lines (snd (create_post page_id access_token database rnd t))
              = replicate (Suc n) (Some (ttl @ '', '' @ auth))))"
proof -
  let ?item = "\<lparr> title = map_of (members book) ''main_title'',
                 author = map_of (members book) ''author'',
                 chapter_name = chapter_key,
                 text = excerpt_text (chapter_text chapter),
                 link = map_of chapter ''link'' \<rparr>"
  let ?msg = "ttl @ '', '' @ auth @ [CHR 0x0A] @ chapter_key @ [CHR 0x0A, CHR 0x0A]
                @ excerpt_text (chapter_text chapter)"
  have item: "get_random_chapter rnd database = Inr ?item"
    using assms(1) by (rule get_random_chapter_picked)
  have msg: "post_message ?item = ?msg"
    by (simp add: post_message_def py_format_def assms(2,3))
  obtain n where n: "posted_messages (snd (create_post page_id access_token database rnd t))
              = replicate (Suc n) (Some ?msg)"
    using create_post_messages[OF item] unfolding msg by blast
  have first: "first_line ?msg = ttl @ '', '' @ auth"
    if "CHR 0x0A \<notin> set ttl \<and> CHR 0x0A \<notin> set auth"
    using first_line_prefix[of "ttl @ '', '' @ auth"] that by simp
  have "posted_first_lines (snd (create_post page_id access_token database rnd t))
              = replicate (Suc n) (Some (ttl @ '', '' @ auth))"
    if "CHR 0x0A \<notin> set ttl \<and> CHR 0x0A \<notin> set auth"
    unfolding posted_first_lines_def n using first[OF that] by (simp only: map_replicate option.map)
  then show ?thesis using n by blast
qed

theorem message_first_line_witness:
  "pick_chapter (0, 0) [example_book ''Simplify.'']
     = Inr (example_book ''Simplify.'', ''Economy'', [(''text'', ''Simplify.'')])
   \<and> map_of (members (example_book ''Simplify.'')) ''main_title'' = Some ''Walden''
   \<and> map_of (members (example_book ''Simplify.'')) ''author'' = Some ''Thoreau''
   \<and> CHR 0x0A \<notin> set ''Walden'' \<and> CHR 0x0A \<notin> set ''Thoreau''
   \<and> (\<exists>n. posted_first_lines
              (snd (create_post ''page'' ''token'' [example_book ''Simplify.''] (0, 0) accepting))
            = replicate (Suc n) (Some ''Walden, Thoreau''))"
proof -
  have h1: "pick_chapter (0, 0) [example_book ''Simplify.'']
     = Inr (example_book ''Simplify.'', ''Economy'', [(''text'', ''Simplify.'')])"
    by (rule pick_example)
  have h2: "map_of (members (example_book ''Simplify.'')) ''main_title'' = Some ''Walden''"
    by (simp add: example_book_def)
  have h3: "map_of (members (example_book ''Simplify.'')) ''author'' = Some ''Thoreau''"
    by (simp add: example_book_def)
  have h4: "CHR 0x0A \<notin> set ''Walden'' \<and> CHR 0x0A \<notin> set ''Thoreau''" by simp
  from message_first_line[OF h1 h2 h3, of "''page''" "''token''" accepting] h4
  have "\<exists>n. posted_first_lines
              (snd (create_post ''page'' ''token'' [example_book ''Simplify.''] (0, 0) accepting))
            = replicate (Suc n) (Some (''Walden'' @ '', '' @ ''Thoreau''))"
    by blast
  then show ?thesis using h1 h2 h3 h4 by simp
qed

lemma default_run_returns:
  "fst (post_to_facebook t page_id access_token message lnk 3 5 (Some Logger)) \<noteq> Inr None"
  by (simp add: post_to_facebook_retry_loop upto_1_3 split_beta split: sum.splits)

subsection \<open>Responses of the handler\<close>

text \<open>
  Claim C8 says that every failure raised inside the handler is answered with status 500
  and a detail, and that success is answered with status 200 and the \<^verbatim>\<open>post_id\<close> string.
  When the remote API accepts the post and answers with a body that has no \<^verbatim>\<open>"id"\<close>,
  nothing is raised inside the handler: it returns \<^verbatim>\<open>{"post_id": None}\<close>, against its own
  \<^verbatim>\<open>response_model\<close> (\<^verbatim>\<open>post_id: str\<close>), and the response is a server error with status 500
  and no detail.
\<close>

theorem create_post_without_id:
  "deliver idless 1 (feed_url ''page'')
       (build_payload ''token''
          (''Walden, Thoreau'' @ [CHR 0x0A] @ ''Economy'' @ [CHR 0x0A, CHR 0x0A] @ ''Simplify.'')
          None)
     = Inr [(''success'', ''true'')]
   \<and> create_post ''page'' ''token'' [example_book ''Simplify.''] (0, 0) idless
     = (Return None,
        [Post (feed_url ''page'')
           (build_payload ''token''
              (''Walden, Thoreau'' @ [CHR 0x0A] @ ''Economy'' @ [CHR 0x0A, CHR 0x0A]
                 @ ''Simplify.'')
              None),
         Info (PostSuccessful None)])
   \<and> respond (fst (create_post ''page'' ''token'' [example_book ''Simplify.''] (0, 0) idless))
     = (500, InternalServerError)"
proof -
  have r: "py_rfind ''Simplify.'' (CHR ''.'') = 8" by (simp add: py_rfind_def)
  have x: "excerpt_text ''Simplify.'' = ''Simplify.''"
    by (simp add: excerpt_text_def sentence_excerpt_def r)
  have g: "get_random_chapter (0, 0) [example_book ''Simplify.''] =
             Inr \<lparr> title = Some ''Walden'', author = Some ''Thoreau'',
                   chapter_name = ''Economy'', text = ''Simplify.'', link = None \<rparr>"
    unfolding get_random_chapter_picked[OF pick_example]
    by (simp add: example_book_def chapter_text_example x)
  have d: "deliver idless k url payload = Inr [(''success'', ''true'')]" for k url payload
    by (simp add: deliver_def idless_def)
  have c: "create_post ''page'' ''token'' [example_book ''Simplify.''] (0, 0) idless
     = (Return None,
        [Post (feed_url ''page'')
           (build_payload ''token''
              (''Walden, Thoreau'' @ [CHR 0x0A] @ ''Economy'' @ [CHR 0x0A, CHR 0x0A]
                 @ ''Simplify.'')
              None),
         Info (PostSuccessful None)])"
    by (simp add: create_post_def g post_to_facebook_retry_loop upto_1_3 d post_message_def
          py_format_def)
  show ?thesis unfolding c by (simp add: d)
qed

text \<open>
  What the code does do. If the selection raises \<open>e\<close>, or the selection returns and
  publishing raises \<open>e\<close>, the handler raises \<^verbatim>\<open>HTTPException(500, str(e))\<close>: the response
  has status 500 and the detail \<^verbatim>\<open>str(e)\<close>. If publishing returns a body whose \<^verbatim>\<open>"id"\<close> is
  the string \<open>post_id\<close>, the handler returns it and the response has status 200 and that
  \<open>post_id\<close>. With the three attempts of the handler publishing never returns \<^verbatim>\<open>None\<close>.
\<close>

lemma create_post_cases:
  "(get_random_chapter rnd database = Inl e \<longrightarrow>
      fst (create_post page_id access_token database rnd t) = HTTPException 500 (str_of e)
      \<and> respond (fst (create_post page_id access_token database rnd t))
          = (500, Detail (str_of e)))
   \<and> (get_random_chapter rnd database = Inr item
       \<and> fst (post_to_facebook t page_id access_token (post_message item) (link item) 3 5 (Some Logger))
           = Inl e \<longrightarrow>
      fst (create_post page_id access_token database rnd t) = HTTPException 500 (str_of e)
      \<and> respond (fst (create_post page_id access_token database rnd t))
          = (500, Detail (str_of e)))
   \<and> (get_random_chapter rnd database = Inr item
       \<and> fst (post_to_facebook t page_id access_token (post_message item) (link item) 3 5 (Some Logger))
           = Inr (Some result)
       \<and> map_of result ''id'' = Some post_id \<longrightarrow>
      fst (create_post page_id access_token database rnd t) = Return (Some post_id)
      \<and> respond (fst (create_post page_id access_token database rnd t))
          = (200, PostId post_id))
   \<and> fst (post_to_facebook t page_id access_token message lnk 3 5 (Some Logger)) \<noteq> Inr None"
proof (intro conjI impI)
  show "fst (post_to_facebook t page_id access_token message lnk 3 5 (Some Logger)) \<noteq> Inr None"
    by (rule default_run_returns)
next
  assume a: "get_random_chapter rnd database = Inl e"
  then show "fst (create_post page_id access_token database rnd t)
               = HTTPException 500 (str_of e)"
    by (simp add: create_post_def)
  then show "respond (fst (create_post page_id access_token database rnd t))
          = (500, Detail (str_of e))"
    by simp
next
  assume a: "get_random_chapter rnd database = Inr item
       \<and> fst (post_to_facebook t page_id access_token (post_message item) (link item) 3 5 (Some Logger))
           = Inl e"
  then show c: "fst (create_post page_id access_token database rnd t)
               = HTTPException 500 (str_of e)"
    by (auto simp add: create_post_def split: prod.splits)
  show "respond (fst (create_post page_id access_token database rnd t))
          = (500, Detail (str_of e))"
    unfolding c by simp
next
  assume a: "get_random_chapter rnd database = Inr item
       \<and> fst (post_to_facebook t page_id access_token (post_message item) (link item) 3 5 (Some Logger))
           = Inr (Some result)
       \<and> map_of result ''id'' = Some post_id"
  then show c: "fst (create_post page_id access_token database rnd t) = Return (Some post_id)"
    by (auto simp add: create_post_def split: prod.splits)
  show "respond (fst (create_post page_id access_token database rnd t))
          = (200, PostId post_id)"
    unfolding c by simp
qed

end
